theory Spec2Isabelle
  imports Main "HOL-Library.Word"
begin

unbundle bit_operations_syntax

section \<open>Data model\<close>

text \<open>
  Bytes of a \<open>Uint8Array\<close> are 8-bit words; the operands of JavaScript's bitwise
  operators are 32-bit integers. JavaScript strings are modelled as \<open>string\<close>: base64
  text, binary strings built from bytes, addresses and log lines only hold code units
  below 256, and a memo text is handed unread to the library's encoder.
\<close>

type_synonym u8 = "8 word"
type_synonym int32 = "32 word"

text \<open>
  Everything the code can throw. \<open>InvalidCharacterError\<close> is the \<open>DOMException\<close> of
  \<open>atob\<close>; \<open>RangeError\<close> is what the engine throws when a call is given more arguments
  than it accepts; \<open>Error\<close> is \<open>new Error(message)\<close> as the repository's \<open>catch\<close> blocks
  build it; \<open>LedgerError\<close> is an error of the ledger library or of the RPC node;
  \<open>IncompleteSignatureError\<close> and \<open>SignerMismatchError\<close> are the specification's names
  for the two failures of signing and serialising.
\<close>

datatype error =
    InvalidCharacterError
  | RangeError
  | Error string
  | LedgerError string
  | IncompleteSignatureError
  | SignerMismatchError

fun error_message :: "error \<Rightarrow> string" where
  "error_message InvalidCharacterError = ''The string to be decoded is not correctly encoded.''"
| "error_message RangeError = ''Maximum call stack size exceeded''"
| "error_message (Error m) = m"
| "error_message (LedgerError m) = m"
| "error_message IncompleteSignatureError = ''IncompleteSignatureError''"
| "error_message SignerMismatchError = ''SignerMismatchError''"

text \<open>A \<open>PublicKey\<close> is its 32 bytes; a \<open>Keypair\<close> is its public key and secret key.\<close>

type_synonym pubkey = "u8 list"

record keypair =
  publicKey :: pubkey
  secretKey :: "u8 list"

text \<open>
  Modelled from the spec: \<open>TransactionInstruction\<close> and \<open>Transaction\<close> of the ledger
  library, which is not part of the repository. An instruction names its accounts (each
  a signer or not, writable or not), its program and its data; an envelope is an ordered
  list of instructions, a fee payer, a recent blockhash and the (identity, signature)
  pairs given so far.
\<close>

record account_meta =
  pubkey :: pubkey
  isSigner :: bool
  isWritable :: bool

record instruction =
  keys :: "account_meta list"
  programId :: pubkey
  data :: "u8 list"

record transaction =
  instructions :: "instruction list"
  feePayer :: "pubkey option"
  recentBlockhash :: "string option"
  signatures :: "(pubkey \<times> u8 list) list"

text \<open>
  The functions of the third-party libraries (\<open>@solana/web3.js\<close>, \<open>bs58\<close>, \<open>tweetnacl\<close>,
  \<open>Buffer\<close>) that the repository calls and that are pure: they are parameters of the
  model. An \<open>option\<close> result is \<open>None\<close> where the library throws.
\<close>

record lib =
  seed_to_keypair :: "u8 list \<Rightarrow> keypair"
  secret_to_keypair :: "u8 list \<Rightarrow> keypair option"
  toBase58 :: "pubkey \<Rightarrow> string"
  decode_address :: "string \<Rightarrow> pubkey option"
  bs58_encode :: "u8 list \<Rightarrow> string"
  bs58_decode :: "string \<Rightarrow> u8 list option"
  utf8_encode :: "string \<Rightarrow> u8 list"
  message_bytes :: "transaction \<Rightarrow> u8 list"
  wire_bytes :: "transaction \<Rightarrow> u8 list"
  sign_detached :: "u8 list \<Rightarrow> u8 list \<Rightarrow> u8 list"

text \<open>
  What the code reads and writes outside its arguments: the environment variable
  \<open>LAZORKIT_SPONSOR_PRIVATE_KEY\<close>, the random source behind \<open>Keypair.generate\<close> (a
  stream of 32-byte draws and the number drawn so far), the console, and the ledger
  node, the specification's ledger capability (the answers of its RPC methods
  \<open>getLatestBlockhash\<close>, \<open>sendRawTransaction\<close> and \<open>confirmTransaction\<close>, and the raw
  transactions handed to it). The connection itself (\<open>getConnection\<close>) is taken to be
  constructible.
\<close>

datatype level = LOG | WARN | ERROR

record world =
  env_sponsor_key :: "string option"
  entropy :: "nat \<Rightarrow> u8 list"
  drawn :: nat
  console :: "(level \<times> string list) list"
  latest_blockhash :: "error + string"
  rpc_send :: "u8 list \<Rightarrow> error + string"
  rpc_confirm :: "string \<Rightarrow> error + unit"
  submitted :: "u8 list list"

section \<open>Key derivation (\<open>deriveKeypairFromPasskey\<close>, \<open>createWalletFromPasskey\<close>)\<close>

text \<open>
  \<open>i % passkeyPublicKey.length\<close>: the remainder of JavaScript numbers is \<open>NaN\<close>
  (here \<open>None\<close>) when the divisor is 0.
\<close>

definition js_rem :: "nat \<Rightarrow> nat \<Rightarrow> nat option" where
  "js_rem a b = (if b = 0 then None else Some (a mod b))"

text \<open>
  Reading a \<open>Uint8Array\<close>: an index that is \<open>NaN\<close> or out of range reads
  \<open>undefined\<close> (here \<open>None\<close>); nothing is thrown.
\<close>

definition typed_array_get :: "u8 list \<Rightarrow> nat option \<Rightarrow> u8 option" where
  "typed_array_get xs idx =
     (case idx of
        None \<Rightarrow> None
      | Some k \<Rightarrow> (if k < length xs then Some (xs ! k) else None))"

text \<open>\<open>ToInt32\<close> of an operand of \<open>^\<close>: \<open>undefined\<close> becomes 0, a byte is widened.\<close>

definition ToInt32 :: "u8 option \<Rightarrow> int32" where
  "ToInt32 v = (case v of None \<Rightarrow> 0 | Some b \<Rightarrow> ucast b)"

text \<open>Storing a number into a \<open>Uint8Array\<close> keeps its low 8 bits.\<close>

definition ToUint8 :: "int32 \<Rightarrow> u8" where
  "ToUint8 v = ucast v"

text \<open>The right-hand side of \<open>seed[i] = passkeyPublicKey[i % passkeyPublicKey.length] ^ (i * 7)\<close>.\<close>

definition seed_byte :: "u8 list \<Rightarrow> nat \<Rightarrow> u8" where
  "seed_byte passkeyPublicKey i =
     ToUint8 (ToInt32 (typed_array_get passkeyPublicKey (js_rem i (length passkeyPublicKey)))
              XOR word_of_nat (i * 7))"

text \<open>The loop \<open>for (let i = 0; i < 32; i++)\<close>, with the buffer \<open>seed\<close> passed along.\<close>

function derive_loop :: "u8 list \<Rightarrow> nat \<Rightarrow> u8 list \<Rightarrow> u8 list" where
  "derive_loop passkeyPublicKey i seed =
     (if i < 32
      then derive_loop passkeyPublicKey (Suc i) (seed[i := seed_byte passkeyPublicKey i])
      else seed)"
  by pat_completeness auto
termination
  by (relation "measure (\<lambda>(passkeyPublicKey, i, seed). 32 - i)") auto

declare derive_loop.simps [simp del]

text \<open>\<open>const seed = new Uint8Array(32)\<close> followed by the loop.\<close>

definition derive_seed :: "u8 list \<Rightarrow> u8 list" where
  "derive_seed passkeyPublicKey = derive_loop passkeyPublicKey 0 (replicate 32 0)"

text \<open>
  Modelled from the spec: \<open>Keypair.fromSeed\<close> of the ledger library, which is not part of
  the repository. It is the ledger's standard seed-to-keypair expansion (the parameter
  \<open>seed_to_keypair\<close>) of a seed of exactly 32 bytes; a seed of another length is refused.
\<close>

definition Keypair_fromSeed :: "lib \<Rightarrow> u8 list \<Rightarrow> error + keypair" where
  "Keypair_fromSeed L seed =
     (if length seed = 32 then Inr (seed_to_keypair L seed)
      else Inl (LedgerError ''bad seed size''))"

definition deriveKeypairFromPasskey :: "lib \<Rightarrow> u8 list \<Rightarrow> error + keypair" where
  "deriveKeypairFromPasskey L passkeyPublicKey =
     Keypair_fromSeed L (derive_seed passkeyPublicKey)"

record derived_wallet =
  dw_keypair :: keypair
  dw_address :: string
  dw_publicKey :: string

definition createWalletFromPasskey :: "lib \<Rightarrow> u8 list \<Rightarrow> error + derived_wallet" where
  "createWalletFromPasskey L passkeyPublicKey =
     (case deriveKeypairFromPasskey L passkeyPublicKey of
        Inl e \<Rightarrow> Inl e
      | Inr keypair \<Rightarrow>
          Inr \<lparr>dw_keypair = keypair,
               dw_address = toBase58 L (publicKey keypair),
               dw_publicKey = bs58_encode L (publicKey keypair)\<rparr>)"

text \<open>
  The same two functions as steps of the program, in the state-passing style of the
  effectful functions below: a call receives the world and returns it with its result.
  Neither body reads the environment, draws from the random source, writes to the
  console or calls the ledger node, so each returns the world as it received it.
\<close>

definition deriveKeypairFromPasskey_run ::
  "lib \<Rightarrow> u8 list \<Rightarrow> world \<Rightarrow> (error + keypair) \<times> world" where
  "deriveKeypairFromPasskey_run L passkeyPublicKey w =
     (let seed = derive_seed passkeyPublicKey;
          keypair = Keypair_fromSeed L seed
      in (keypair, w))"

definition createWalletFromPasskey_run ::
  "lib \<Rightarrow> u8 list \<Rightarrow> world \<Rightarrow> (error + derived_wallet) \<times> world" where
  "createWalletFromPasskey_run L passkeyPublicKey w =
     (case deriveKeypairFromPasskey_run L passkeyPublicKey w of
        (Inl e, w') \<Rightarrow> (Inl e, w')
      | (Inr keypair, w') \<Rightarrow>
          (Inr \<lparr>dw_keypair = keypair,
                dw_address = toBase58 L (publicKey keypair),
                dw_publicKey = bs58_encode L (publicKey keypair)\<rparr>, w'))"

text \<open>
  A single-bit change of the byte at position \<open>j\<close>: bit \<open>k\<close> of that byte is flipped.
\<close>

definition flip_bit_at :: "u8 list \<Rightarrow> nat \<Rightarrow> nat \<Rightarrow> u8 list" where
  "flip_bit_at b j k = b[j := (b ! j) XOR push_bit k 1]"

section \<open>The base64url codec (\<open>bufferToBase64url\<close>, \<open>base64urlToBuffer\<close>)\<close>

text \<open>
  \<open>btoa\<close> and \<open>atob\<close> are built into the platform; they are modelled after their
  standard (RFC 4648 base64 for \<open>btoa\<close>, the forgiving base64 decoding of the HTML
  standard for \<open>atob\<close>).
\<close>

definition base64_alphabet :: string where
  "base64_alphabet =
     ''ABCDEFGHIJKLMNOPQRSTUVWXYZabcdefghijklmnopqrstuvwxyz0123456789+/''"

text \<open>Three bytes become four 6-bit values; a last group of one or two bytes is cut short.\<close>

fun sextets :: "nat list \<Rightarrow> nat list" where
  "sextets (a # b # c # rest) =
     [a div 4, (a mod 4) * 16 + b div 16, (b mod 16) * 4 + c div 64, c mod 64] @ sextets rest"
| "sextets [a, b] = [a div 4, (a mod 4) * 16 + b div 16, (b mod 16) * 4]"
| "sextets [a] = [a div 4, (a mod 4) * 16]"
| "sextets [] = []"

definition btoa :: "string \<Rightarrow> string" where
  "btoa s =
     map (\<lambda>v. base64_alphabet ! v) (sextets (map of_char s))
       @ replicate ((3 - length s mod 3) mod 3) (CHR ''='')"

definition ascii_whitespace :: "char \<Rightarrow> bool" where
  "ascii_whitespace c = (of_char c \<in> {9, 10, 12, 13, 32 :: nat})"

text \<open>
  If the length is a multiple of 4, one or two \<open>=\<close> at the end are removed.
\<close>

definition strip_padding :: "string \<Rightarrow> string" where
  "strip_padding d =
     (if length d mod 4 = 0 then
        (if 2 \<le> length d \<and> last d = CHR ''='' \<and> last (butlast d) = CHR ''=''
           then butlast (butlast d)
         else if d \<noteq> [] \<and> last d = CHR ''='' then butlast d
         else d)
      else d)"

fun index_of :: "'a list \<Rightarrow> 'a \<Rightarrow> nat option" where
  "index_of [] y = None"
| "index_of (x # xs) y = (if x = y then Some 0 else map_option Suc (index_of xs y))"

fun sextets_of :: "string \<Rightarrow> nat list option" where
  "sextets_of [] = Some []"
| "sextets_of (c # cs) =
     (case index_of base64_alphabet c of
        None \<Rightarrow> None
      | Some v \<Rightarrow> map_option ((#) v) (sextets_of cs))"

text \<open>Four 6-bit values become three bytes; the bits left over at the end are dropped.\<close>

fun octets :: "nat list \<Rightarrow> nat list" where
  "octets (p # q # r # s # rest) =
     [p * 4 + q div 16, (q mod 16) * 16 + r div 4, (r mod 4) * 64 + s] @ octets rest"
| "octets [p, q, r] = [p * 4 + q div 16, (q mod 16) * 16 + r div 4]"
| "octets [p, q] = [p * 4 + q div 16]"
| "octets [p] = []"
| "octets [] = []"

definition atob :: "string \<Rightarrow> error + string" where
  "atob input =
     (let d = strip_padding (filter (\<lambda>c. \<not> ascii_whitespace c) input)
      in if length d mod 4 = 1 then Inl InvalidCharacterError
         else (case sextets_of d of
                 None \<Rightarrow> Inl InvalidCharacterError
               | Some vs \<Rightarrow> Inr (map char_of (octets vs))))"

text \<open>\<open>s.replace(/c/g, r)\<close> for a single character \<open>c\<close>.\<close>

definition replace_all :: "char \<Rightarrow> string \<Rightarrow> string \<Rightarrow> string" where
  "replace_all c r s = concat (map (\<lambda>x. if x = c then r else [x]) s)"

definition padEnd :: "string \<Rightarrow> nat \<Rightarrow> char \<Rightarrow> string" where
  "padEnd s target c = s @ replicate (target - length s) c"

text \<open>The string whose code units are the given bytes.\<close>

definition binary_string :: "u8 list \<Rightarrow> string" where
  "binary_string buffer = map (\<lambda>b. char_of (unat b)) buffer"

text \<open>
  \<open>String.fromCharCode(...buffer)\<close> spreads the buffer into the arguments of one call.
  An engine accepts only so many arguments in a call (\<open>max_arguments\<close>, which differs
  between engines); with more, the call throws \<open>RangeError\<close>.
\<close>

definition String_fromCharCode :: "nat \<Rightarrow> u8 list \<Rightarrow> error + string" where
  "String_fromCharCode max_arguments buffer =
     (if length buffer \<le> max_arguments then Inr (binary_string buffer)
      else Inl RangeError)"

definition bufferToBase64url :: "nat \<Rightarrow> u8 list \<Rightarrow> error + string" where
  "bufferToBase64url max_arguments buffer =
     (case String_fromCharCode max_arguments buffer of
        Inl e \<Rightarrow> Inl e
      | Inr chars \<Rightarrow>
          (let base64 = btoa chars
           in Inr (replace_all (CHR ''='') []
                    (replace_all (CHR ''/'') ''_'' (replace_all (CHR ''+'') ''-'' base64)))))"

text \<open>The loop \<open>for (let i = 0; i < binary.length; i++) bytes[i] = binary.charCodeAt(i)\<close>.\<close>

function fill_bytes :: "string \<Rightarrow> nat \<Rightarrow> u8 list \<Rightarrow> u8 list" where
  "fill_bytes binary i bytes =
     (if i < length binary
      then fill_bytes binary (Suc i) (bytes[i := word_of_nat (of_char (binary ! i))])
      else bytes)"
  by pat_completeness auto
termination
  by (relation "measure (\<lambda>(binary, i, bytes). length binary - i)") auto

declare fill_bytes.simps [simp del]

definition base64urlToBuffer :: "string \<Rightarrow> error + u8 list" where
  "base64urlToBuffer base64url =
     (let base64 = replace_all (CHR ''_'') ''/'' (replace_all (CHR ''-'') ''+'' base64url);
          padded = padEnd base64 (length base64 + (4 - length base64 mod 4) mod 4) (CHR ''='')
      in case atob padded of
           Inl e \<Rightarrow> Inl e
         | Inr binary \<Rightarrow> Inr (fill_bytes binary 0 (replicate (length binary) 0)))"

section \<open>Sponsored transactions (\<open>createMemoTransaction\<close>, \<open>sendSponsoredTransaction\<close>)\<close>

text \<open>
  Modelled from the spec: the ledger library's \<open>Transaction\<close> class, which is not part of
  the repository. \<open>new Transaction()\<close> is the empty envelope, \<open>add\<close> appends an
  instruction, and \<open>new PublicKey(text)\<close> decodes an address (the parameter
  \<open>decode_address\<close>) or throws.
\<close>

definition Transaction_new :: transaction where
  "Transaction_new =
     \<lparr>instructions = [], feePayer = None, recentBlockhash = None, signatures = []\<rparr>"

definition Transaction_add :: "transaction \<Rightarrow> instruction \<Rightarrow> transaction" where
  "Transaction_add tx ins = tx\<lparr>instructions := instructions tx @ [ins]\<rparr>"

definition PublicKey_new :: "lib \<Rightarrow> string \<Rightarrow> error + pubkey" where
  "PublicKey_new L text =
     (case decode_address L text of
        None \<Rightarrow> Inl (LedgerError ''Invalid public key input'')
      | Some p \<Rightarrow> Inr p)"

text \<open>
  Modelled from the spec: the signer slots of an envelope, which the ledger library
  keeps. The required signers are the fee payer and every account that an instruction
  names as a signer; a slot is unsigned while no signature is recorded for its identity.
\<close>

definition required_signers :: "transaction \<Rightarrow> pubkey list" where
  "required_signers tx =
     remdups ((case feePayer tx of None \<Rightarrow> [] | Some p \<Rightarrow> [p])
              @ map pubkey (filter isSigner (concat (map keys (instructions tx)))))"

definition unsigned_slots :: "transaction \<Rightarrow> pubkey list" where
  "unsigned_slots tx =
     filter (\<lambda>p. map_of (signatures tx) p = None) (required_signers tx)"

text \<open>
  Modelled from the spec: \<open>Transaction.partialSign\<close> of the ledger library, one signer of
  the specification's \<open>coSign\<close>. The signer must be one of the identities the envelope
  references, else \<open>SignerMismatchError\<close>; the signature is computed over the canonical
  bytes of the unsigned envelope and recorded for the signer's identity.
\<close>

definition partialSign :: "lib \<Rightarrow> transaction \<Rightarrow> keypair \<Rightarrow> error + transaction" where
  "partialSign L tx signer =
     (if publicKey signer \<in> set (required_signers tx)
      then Inr (tx\<lparr>signatures :=
                  filter (\<lambda>sp. fst sp \<noteq> publicKey signer) (signatures tx)
                  @ [(publicKey signer,
                      sign_detached L (message_bytes L (tx\<lparr>signatures := []\<rparr>)) (secretKey signer))]\<rparr>)
      else Inl SignerMismatchError)"

text \<open>
  Modelled from the spec: \<open>Transaction.serialize\<close> of the ledger library, the
  specification's \<open>serialize\<close>. It fails with \<open>IncompleteSignatureError\<close> if any required
  signer slot is unsigned, and otherwise yields the wire bytes (the parameter
  \<open>wire_bytes\<close>).
\<close>

definition serialize :: "lib \<Rightarrow> transaction \<Rightarrow> error + u8 list" where
  "serialize L tx =
     (if unsigned_slots tx \<noteq> [] then Inl IncompleteSignatureError
      else Inr (wire_bytes L tx))"

text \<open>The console and the ledger node.\<close>

definition console_write :: "level \<Rightarrow> string list \<Rightarrow> world \<Rightarrow> world" where
  "console_write l args w = w\<lparr>console := console w @ [(l, args)]\<rparr>"

definition getLatestBlockhash :: "world \<Rightarrow> (error + string) \<times> world" where
  "getLatestBlockhash w = (latest_blockhash w, w)"

definition sendRawTransaction :: "u8 list \<Rightarrow> world \<Rightarrow> (error + string) \<times> world" where
  "sendRawTransaction bytes w = (rpc_send w bytes, w\<lparr>submitted := submitted w @ [bytes]\<rparr>)"

definition confirmTransaction :: "string \<Rightarrow> world \<Rightarrow> (error + unit) \<times> world" where
  "confirmTransaction sig w = (rpc_confirm w sig, w)"

text \<open>\<open>Keypair.generate()\<close>: the expansion of the next 32 random bytes.\<close>

definition Keypair_generate :: "lib \<Rightarrow> world \<Rightarrow> keypair \<times> world" where
  "Keypair_generate L w =
     (seed_to_keypair L (entropy w (drawn w)), w\<lparr>drawn := Suc (drawn w)\<rparr>)"

definition MEMO_PROGRAM_ADDRESS :: string where
  "MEMO_PROGRAM_ADDRESS = ''MemoSq4gqABAXKb96qnH8TysNcWxMyWCqXgDLGmfcHr''"

definition createMemoTransaction ::
  "lib \<Rightarrow> pubkey \<Rightarrow> string \<Rightarrow> keypair \<Rightarrow> world \<Rightarrow> (error + transaction) \<times> world" where
  "createMemoTransaction L userWallet memo sponsorKeypair w =
     (case PublicKey_new L MEMO_PROGRAM_ADDRESS of
        Inl e \<Rightarrow> (Inl e, w)
      | Inr MEMO_PROGRAM_ID \<Rightarrow>
          (let memoInstruction =
                 \<lparr>keys = [\<lparr>pubkey = userWallet, isSigner = True, isWritable = False\<rparr>],
                  programId = MEMO_PROGRAM_ID,
                  data = utf8_encode L memo\<rparr>;
               tx0 = Transaction_add Transaction_new memoInstruction;
               tx1 = tx0\<lparr>feePayer := Some (publicKey sponsorKeypair)\<rparr>
           in case getLatestBlockhash w of
                (Inl e, w') \<Rightarrow> (Inl e, w')
              | (Inr blockhash, w') \<Rightarrow> (Inr (tx1\<lparr>recentBlockhash := Some blockhash\<rparr>), w')))"

text \<open>
  The body of the \<open>try\<close> block of \<open>sendSponsoredTransaction\<close>. The source signs the
  caller's transaction object in place; the caller does not use the object again, so
  the signed envelope is not returned. The argument \<open>transaction.serialize()\<close> is
  evaluated before \<open>sendRawTransaction\<close> is called.
\<close>

definition sendSponsoredTransaction_try ::
  "lib \<Rightarrow> transaction \<Rightarrow> keypair \<Rightarrow> keypair \<Rightarrow> world \<Rightarrow> (error + string) \<times> world" where
  "sendSponsoredTransaction_try L tx userKeypair sponsorKeypair w =
     (case partialSign L tx userKeypair of
        Inl e \<Rightarrow> (Inl e, w)
      | Inr tx1 \<Rightarrow>
          (case partialSign L tx1 sponsorKeypair of
             Inl e \<Rightarrow> (Inl e, w)
           | Inr tx2 \<Rightarrow>
               (case serialize L tx2 of
                  Inl e \<Rightarrow> (Inl e, w)
                | Inr bytes \<Rightarrow>
                    (case sendRawTransaction bytes w of
                       (Inl e, w1) \<Rightarrow> (Inl e, w1)
                     | (Inr sig, w1) \<Rightarrow>
                         (case confirmTransaction sig w1 of
                            (Inl e, w2) \<Rightarrow> (Inl e, w2)
                          | (Inr _, w2) \<Rightarrow> (Inr sig, w2))))))"

text \<open>The \<open>catch\<close> block logs the error and throws \<open>new Error(`Transaction failed: ...`)\<close>.\<close>

definition sendSponsoredTransaction ::
  "lib \<Rightarrow> transaction \<Rightarrow> keypair \<Rightarrow> keypair \<Rightarrow> world \<Rightarrow> (error + string) \<times> world" where
  "sendSponsoredTransaction L tx userKeypair sponsorKeypair w =
     (case sendSponsoredTransaction_try L tx userKeypair sponsorKeypair w of
        (Inl e, w') \<Rightarrow>
          (Inl (Error (''Transaction failed: '' @ error_message e)),
           console_write ERROR [''Transaction failed:'', error_message e] w')
      | (Inr sig, w') \<Rightarrow> (Inr sig, w'))"

section \<open>The gasless flow (\<open>getSponsorWallet\<close>, \<open>executeGaslessTransaction\<close>)\<close>

definition placeholder_key :: string where
  "placeholder_key = ''your_base58_encoded_private_key_here''"

text \<open>\<open>Keypair.fromSecretKey(bs58.decode(sponsorKey))\<close>; \<open>None\<close> where either call throws.\<close>

definition decode_sponsor :: "lib \<Rightarrow> string \<Rightarrow> keypair option" where
  "decode_sponsor L sponsorKey =
     (case bs58_decode L sponsorKey of
        None \<Rightarrow> None
      | Some bytes \<Rightarrow> secret_to_keypair L bytes)"

definition getSponsorWallet :: "lib \<Rightarrow> world \<Rightarrow> keypair \<times> world" where
  "getSponsorWallet L w =
     (case env_sponsor_key w of
        None \<Rightarrow> Keypair_generate L w
      | Some sponsorKey \<Rightarrow>
          (if sponsorKey \<noteq> [] \<and> sponsorKey \<noteq> placeholder_key then
             (case decode_sponsor L sponsorKey of
                Some kp \<Rightarrow> (kp, w)
              | None \<Rightarrow>
                  Keypair_generate L
                    (console_write WARN [''Invalid sponsor key, using random sponsor''] w))
           else Keypair_generate L w))"

record LazorkitWallet =
  lw_address :: string
  lw_publicKey :: string
  lw_credentialId :: string
  lw_keypair :: keypair

text \<open>
  The value \<open>executeGaslessTransaction\<close> returns; \<open>feeSaved\<close> is the decimal constant
  \<open>0.000005\<close>, kept as mantissa and exponent.
\<close>

record gasless_result =
  signature :: string
  sponsor :: string
  feeSaved :: "int \<times> int"

definition executeGaslessTransaction_try ::
  "lib \<Rightarrow> LazorkitWallet \<Rightarrow> string \<Rightarrow> world \<Rightarrow> (error + gasless_result) \<times> world" where
  "executeGaslessTransaction_try L wallet memo w =
     (let w0 = console_write LOG [''Creating gasless transaction...''] w;
          (sp, w1) = getSponsorWallet L w0
      in case PublicKey_new L (lw_address wallet) of
           Inl e \<Rightarrow> (Inl e, w1)
         | Inr userWallet \<Rightarrow>
             (case createMemoTransaction L userWallet memo sp w1 of
                (Inl e, w2) \<Rightarrow> (Inl e, w2)
              | (Inr tx, w2) \<Rightarrow>
                  (let w3 = console_write LOG
                              [''Transaction created with sponsor:'', toBase58 L (publicKey sp)] w2;
                       w4 = console_write LOG
                              [''Fee payer:'',
                               (case feePayer tx of
                                  None \<Rightarrow> ''undefined''
                                | Some p \<Rightarrow> toBase58 L p)] w3
                   in case sendSponsoredTransaction L tx (lw_keypair wallet) sp w4 of
                        (Inl e, w5) \<Rightarrow> (Inl e, w5)
                      | (Inr sig, w5) \<Rightarrow>
                          (Inr \<lparr>signature = sig,
                                sponsor = toBase58 L (publicKey sp),
                                feeSaved = (5, -6)\<rparr>,
                           console_write LOG [''Transaction sent:'', sig] w5))))"

definition executeGaslessTransaction ::
  "lib \<Rightarrow> LazorkitWallet \<Rightarrow> string \<Rightarrow> world \<Rightarrow> (error + gasless_result) \<times> world" where
  "executeGaslessTransaction L wallet memo w =
     (case executeGaslessTransaction_try L wallet memo w of
        (Inl e, w') \<Rightarrow>
          (Inl e, console_write ERROR [''Gasless transaction failed:'', error_message e] w')
      | (Inr r, w') \<Rightarrow> (Inr r, w'))"

text \<open>
  \<open>handleGetSponsor\<close> of the API route resolves the sponsor the same way and answers
  with the sponsor's address, adding \<open>isDemo: true\<close> when the sponsor is a generated one.
\<close>

record sponsor_response =
  sr_sponsor :: string
  sr_isDemo :: "bool option"

definition handleGetSponsor :: "lib \<Rightarrow> world \<Rightarrow> sponsor_response \<times> world" where
  "handleGetSponsor L w =
     (let demo = (\<lambda>w'. case Keypair_generate L w' of
                          (demoSponsor, w'') \<Rightarrow>
                            (\<lparr>sr_sponsor = toBase58 L (publicKey demoSponsor),
                              sr_isDemo = Some True\<rparr>, w''))
      in case env_sponsor_key w of
           None \<Rightarrow> demo w
         | Some sponsorKey \<Rightarrow>
             (if sponsorKey \<noteq> [] \<and> sponsorKey \<noteq> placeholder_key then
                (case decode_sponsor L sponsorKey of
                   Some kp \<Rightarrow> (\<lparr>sr_sponsor = toBase58 L (publicKey kp), sr_isDemo = None\<rparr>, w)
                 | None \<Rightarrow> demo (console_write ERROR [''Invalid sponsor key''] w))
              else demo w))"

section \<open>A concrete instance for evaluation\<close>

text \<open>
  A small instance of the library parameters and of the outside world, on which the
  definitions can be evaluated. The functions are stand-ins with the right types
  (not Ed25519, not base58).
\<close>

definition bytes_of_string :: "string \<Rightarrow> u8 list" where
  "bytes_of_string s = map (\<lambda>c. word_of_nat (of_char c)) s"

definition example_lib :: lib where
  "example_lib =
     \<lparr>seed_to_keypair = (\<lambda>s. \<lparr>publicKey = s, secretKey = s @ s\<rparr>),
      secret_to_keypair =
        (\<lambda>bs. if length bs = 4 then Some \<lparr>publicKey = drop 2 bs, secretKey = bs\<rparr> else None),
      toBase58 = binary_string,
      decode_address = (\<lambda>s. Some (bytes_of_string s)),
      bs58_encode = binary_string,
      bs58_decode = (\<lambda>s. Some (bytes_of_string s)),
      utf8_encode = bytes_of_string,
      message_bytes = (\<lambda>tx. concat (map data (instructions tx))),
      wire_bytes = (\<lambda>tx. concat (map snd (signatures tx)) @ concat (map data (instructions tx))),
      sign_detached = (\<lambda>m sk. take 1 sk @ take 1 m)\<rparr>"

text \<open>
  A world with the given sponsor secret and latest blockhash; its random source draws
  \<open>AA\<close>, \<open>BB\<close>, ..., and its node accepts every transaction.
\<close>

definition example_world :: "string option \<Rightarrow> string \<Rightarrow> world" where
  "example_world key blockhash =
     \<lparr>env_sponsor_key = key,
      entropy = (\<lambda>n. replicate 2 (word_of_nat (65 + n))),
      drawn = 0,
      console = [],
      latest_blockhash = Inr blockhash,
      rpc_send = (\<lambda>bytes. Inr ''sig''),
      rpc_confirm = (\<lambda>sig. Inr ()),
      submitted = []\<rparr>"

definition example_subject :: keypair where
  "example_subject = \<lparr>publicKey = [85, 85], secretKey = [85, 85, 85, 85]\<rparr>"

definition example_sponsor :: keypair where
  "example_sponsor = \<lparr>publicKey = [65, 65], secretKey = [65, 65, 65, 65]\<rparr>"

definition example_wallet :: LazorkitWallet where
  "example_wallet =
     \<lparr>lw_address = ''UU'',
      lw_publicKey = ''UU'',
      lw_credentialId = ''cred'',
      lw_keypair = example_subject\<rparr>"

text \<open>An unsigned memo envelope for \<open>example_subject\<close>, paid by \<open>example_sponsor\<close>.\<close>

definition example_envelope :: transaction where
  "example_envelope =
     \<lparr>instructions =
        [\<lparr>keys = [\<lparr>pubkey = [85, 85], isSigner = True, isWritable = False\<rparr>],
          programId = [77], data = [104, 105]\<rparr>],
      feePayer = Some [65, 65],
      recentBlockhash = Some ''bh'',
      signatures = []\<rparr>"

section \<open>Properties of the key derivation\<close>

lemma ucast_xor_down:
  "(ucast ((ucast (b::u8) :: int32) XOR w) :: u8) = b XOR ucast w"
  by (rule bit_word_eqI) (auto simp: bit_simps)

lemma ucast_of_nat_down: "(ucast (word_of_nat n :: int32) :: u8) = word_of_nat n"
  by (rule bit_word_eqI) (auto simp: bit_simps)

lemma seed_byte_nonempty:
  "b \<noteq> [] \<Longrightarrow> seed_byte b i = b ! (i mod length b) XOR word_of_nat (i * 7)"
  by (simp add: seed_byte_def js_rem_def typed_array_get_def ToInt32_def ToUint8_def
      ucast_xor_down ucast_of_nat_down del: of_nat_mult)

lemma seed_byte_empty: "seed_byte [] i = word_of_nat (i * 7)"
  by (simp add: seed_byte_def js_rem_def typed_array_get_def ToInt32_def ToUint8_def
      ucast_of_nat_down del: of_nat_mult)

lemma unat_xor_small: "n < 256 \<Longrightarrow> unat ((x::u8) XOR word_of_nat n) = unat x XOR n"
  by (simp add: unsigned_xor_eq unat_of_nat)

text \<open>The loop fills the positions from \<open>i\<close> on and leaves the earlier ones alone.\<close>

lemma derive_loop_eq:
  "length seed = 32 \<Longrightarrow> i \<le> 32 \<Longrightarrow>
   derive_loop b i seed = take i seed @ map (seed_byte b) [i..<32]"
proof (induction b i seed rule: derive_loop.induct)
  case (1 b i seed)
  show ?case
  proof (cases "i < 32")
    case True
    have "derive_loop b i seed = derive_loop b (Suc i) (seed[i := seed_byte b i])"
      using True by (simp add: derive_loop.simps [of b i seed])
    also have "\<dots> = take (Suc i) (seed[i := seed_byte b i]) @ map (seed_byte b) [Suc i..<32]"
      using True 1 by simp
    also have "take (Suc i) (seed[i := seed_byte b i]) = take i seed @ [seed_byte b i]"
      using True 1(2) by (simp add: take_Suc_conv_app_nth)
    finally show ?thesis using True by (simp add: upt_conv_Cons)
  next
    case False
    then have "derive_loop b i seed = seed"
      by (simp add: derive_loop.simps [of b i seed])
    with False 1 show ?thesis by simp
  qed
qed

lemma derive_seed_eq: "derive_seed b = map (seed_byte b) [0..<32]"
  by (simp add: derive_seed_def derive_loop_eq)

lemma length_derive_seed: "length (derive_seed b) = 32"
  by (simp add: derive_seed_eq)

lemma derive_seed_nth: "i < 32 \<Longrightarrow> derive_seed b ! i = seed_byte b i"
  by (simp add: derive_seed_eq)

lemma deriveKeypair_eq:
  "deriveKeypairFromPasskey L b = Inr (seed_to_keypair L (derive_seed b))"
  by (simp add: deriveKeypairFromPasskey_def Keypair_fromSeed_def length_derive_seed)

lemma createWallet_eq:
  "createWalletFromPasskey L b =
     Inr \<lparr>dw_keypair = seed_to_keypair L (derive_seed b),
          dw_address = toBase58 L (publicKey (seed_to_keypair L (derive_seed b))),
          dw_publicKey = bs58_encode L (publicKey (seed_to_keypair L (derive_seed b)))\<rparr>"
  by (simp add: createWalletFromPasskey_def deriveKeypair_eq)

lemma flip_changes_byte:
  assumes "k < 8"
  shows "((x::u8) XOR push_bit k 1) XOR c \<noteq> x XOR c"
proof
  assume "(x XOR push_bit k 1) XOR c = x XOR c"
  then have "bit ((x XOR push_bit k 1) XOR c) k = bit (x XOR c) k" by simp
  with assms show False by (auto simp: bit_simps)
qed

lemma flip_bit_at_length: "length (flip_bit_at b j k) = length b"
  by (simp add: flip_bit_at_def)

text \<open>
  Claim C1. For a non-empty input \<open>b\<close> the seed has exactly 32 bytes, the byte at each
  position \<open>i < 32\<close> is \<open>b[i mod len(b)] XOR (i * 7)\<close> (as bytes and, with \<open>i * 7\<close> not
  reduced, as numbers), and the keypair is the library's seed-to-keypair expansion of
  that seed; nothing fails, whatever the length of \<open>b\<close>, 1 included.
\<close>

theorem derive_seed_bytes:
  assumes "b \<noteq> []" and "i < 32"
  shows "length (derive_seed b) = 32
       \<and> derive_seed b ! i = b ! (i mod length b) XOR word_of_nat (i * 7)
       \<and> unat (derive_seed b ! i) = unat (b ! (i mod length b)) XOR (i * 7)
       \<and> deriveKeypairFromPasskey L b = Inr (seed_to_keypair L (derive_seed b))"
proof -
  have bytes: "derive_seed b ! i = b ! (i mod length b) XOR word_of_nat (i * 7)"
    by (simp only: derive_seed_nth [OF assms(2)] seed_byte_nonempty [OF assms(1)])
  from assms(2) have "i * 7 < 256" by linarith
  then have nums: "unat (derive_seed b ! i) = unat (b ! (i mod length b)) XOR (i * 7)"
    by (simp only: bytes unat_xor_small)
  from bytes nums show ?thesis
    by (simp only: length_derive_seed deriveKeypair_eq simp_thms)
qed

text \<open>The input of length 1: the single byte 42 is cycled over all 32 positions.\<close>

theorem derive_seed_bytes_witness:
  "[42 :: u8] \<noteq> [] \<and> (31 :: nat) < 32
   \<and> length (derive_seed [42]) = 32
   \<and> derive_seed [42] ! 31 = 243
   \<and> unat (derive_seed [42] ! 31) = 243
   \<and> deriveKeypairFromPasskey example_lib [42] = Inr (seed_to_keypair example_lib (derive_seed [42]))"
  using derive_seed_bytes [of "[42]" 31 example_lib] by simp

lemma deriveKeypair_run_eq:
  "deriveKeypairFromPasskey_run L b w = (Inr (seed_to_keypair L (derive_seed b)), w)"
  by (simp add: deriveKeypairFromPasskey_run_def Keypair_fromSeed_def length_derive_seed)

lemma createWallet_run_eq:
  "createWalletFromPasskey_run L b w =
     (Inr \<lparr>dw_keypair = seed_to_keypair L (derive_seed b),
           dw_address = toBase58 L (publicKey (seed_to_keypair L (derive_seed b))),
           dw_publicKey = bs58_encode L (publicKey (seed_to_keypair L (derive_seed b)))\<rparr>, w)"
  by (simp add: createWalletFromPasskey_run_def deriveKeypair_run_eq)

text \<open>
  By contrast, \<open>Keypair.generate()\<close> depends on the world: the same call gives another
  keypair once a draw has been consumed.
\<close>

lemma Keypair_generate_depends_on_world:
  "fst (Keypair_generate example_lib (example_world None []))
     \<noteq> fst (Keypair_generate example_lib ((example_world None [])\<lparr>drawn := 1\<rparr>))"
  by (simp add: Keypair_generate_def example_lib_def example_world_def)

text \<open>
  Claim C2. The derivation is deterministic: run in any two worlds (whatever the
  environment, the state of the random source, the console and the ledger node are), the
  derivation and the wallet construction built on it return the same keypair and the same
  wallet, address included, for the same bytes; they leave the world as they found it (no
  random draw is consumed, nothing is logged), so a second evaluation after the first
  returns the same again; and the result is the library's expansion of the seed
  \<open>derive_seed b\<close>, which is computed from the bytes alone.
\<close>

theorem derive_deterministic:
  "fst (deriveKeypairFromPasskey_run L b w1) = fst (deriveKeypairFromPasskey_run L b w2)
   \<and> fst (createWalletFromPasskey_run L b w1) = fst (createWalletFromPasskey_run L b w2)
   \<and> snd (deriveKeypairFromPasskey_run L b w1) = w1
   \<and> snd (createWalletFromPasskey_run L b w1) = w1
   \<and> fst (deriveKeypairFromPasskey_run L b (snd (deriveKeypairFromPasskey_run L b w1)))
        = fst (deriveKeypairFromPasskey_run L b w1)
   \<and> fst (createWalletFromPasskey_run L b (snd (createWalletFromPasskey_run L b w1)))
        = fst (createWalletFromPasskey_run L b w1)
   \<and> fst (deriveKeypairFromPasskey_run L b w1) = Inr (seed_to_keypair L (derive_seed b))
   \<and> fst (createWalletFromPasskey_run L b w1) =
        Inr \<lparr>dw_keypair = seed_to_keypair L (derive_seed b),
             dw_address = toBase58 L (publicKey (seed_to_keypair L (derive_seed b))),
             dw_publicKey = bs58_encode L (publicKey (seed_to_keypair L (derive_seed b)))\<rparr>
   \<and> fst (deriveKeypairFromPasskey_run L b w1) = deriveKeypairFromPasskey L b
   \<and> fst (createWalletFromPasskey_run L b w1) = createWalletFromPasskey L b"
  by (simp only: deriveKeypair_run_eq createWallet_run_eq deriveKeypair_eq createWallet_eq
      fst_conv snd_conv simp_thms)

text \<open>
  The input \<open>1, 2, 3\<close> in two worlds that differ in the sponsor secret, the blockhash
  and the state of the random source: the same keypair and wallet, from the same seed.
\<close>

theorem derive_deterministic_witness:
  "derive_seed [1, 2, 3] =
        [1, 5, 13, 20, 30, 32, 43, 51, 59, 62, 68, 78, 85, 89, 97, 104, 114, 116,
         127, 135, 143, 146, 152, 162, 169, 173, 181, 188, 198, 200, 211, 219]
   \<and> fst (deriveKeypairFromPasskey_run example_lib [1, 2, 3] (example_world None ''bh''))
        = Inr (seed_to_keypair example_lib (derive_seed [1, 2, 3]))
   \<and> fst (deriveKeypairFromPasskey_run example_lib [1, 2, 3] (example_world None ''bh''))
        = fst (deriveKeypairFromPasskey_run example_lib [1, 2, 3]
                 ((example_world (Some ''zz'') [])\<lparr>drawn := 7\<rparr>))
   \<and> fst (createWalletFromPasskey_run example_lib [1, 2, 3] (example_world None ''bh''))
        = fst (createWalletFromPasskey_run example_lib [1, 2, 3]
                 ((example_world (Some ''zz'') [])\<lparr>drawn := 7\<rparr>))
   \<and> snd (createWalletFromPasskey_run example_lib [1, 2, 3] (example_world None ''bh''))
        = example_world None ''bh''"
proof -
  have v: "derive_seed [1, 2, 3] =
        [1, 5, 13, 20, 30, 32, 43, 51, 59, 62, 68, 78, 85, 89, 97, 104, 114, 116,
         127, 135, 143, 146, 152, 162, 169, 173, 181, 188, 198, 200, 211, 219]"
    by code_simp
  note a = derive_deterministic
    [where L = example_lib and b = "[1, 2, 3]" and ?w1.0 = "example_world None ''bh''"
       and ?w2.0 = "(example_world (Some ''zz'') [])\<lparr>drawn := 7\<rparr>"]
  from a have
    "fst (deriveKeypairFromPasskey_run example_lib [1, 2, 3] (example_world None ''bh''))
        = Inr (seed_to_keypair example_lib (derive_seed [1, 2, 3]))"
    and "fst (deriveKeypairFromPasskey_run example_lib [1, 2, 3] (example_world None ''bh''))
        = fst (deriveKeypairFromPasskey_run example_lib [1, 2, 3]
                 ((example_world (Some ''zz'') [])\<lparr>drawn := 7\<rparr>))"
    and "fst (createWalletFromPasskey_run example_lib [1, 2, 3] (example_world None ''bh''))
        = fst (createWalletFromPasskey_run example_lib [1, 2, 3]
                 ((example_world (Some ''zz'') [])\<lparr>drawn := 7\<rparr>))"
    and "snd (createWalletFromPasskey_run example_lib [1, 2, 3] (example_world None ''bh''))
        = example_world None ''bh''"
    by blast+
  with v show ?thesis by blast
qed

text \<open>
  Claim C4, as stated, fails: on the empty byte sequence the derivation does not fail.
  \<open>i % 0\<close> is \<open>NaN\<close>, the read yields \<open>undefined\<close>, \<open>undefined ^ (i * 7)\<close> is \<open>i * 7\<close>,
  and a keypair is built from the seed \<open>0, 7, 14, ..., 217\<close>.
\<close>

theorem derive_empty_counterexample:
  "deriveKeypairFromPasskey example_lib [] =
     Inr (seed_to_keypair example_lib
            [0, 7, 14, 21, 28, 35, 42, 49, 56, 63, 70, 77, 84, 91, 98, 105, 112, 119,
             126, 133, 140, 147, 154, 161, 168, 175, 182, 189, 196, 203, 210, 217])"
  by code_simp

text \<open>
  Claim C4, amended. The derivation never fails: on every byte sequence, the empty one
  included, it returns the keypair expanded from a 32-byte seed, and on the empty
  sequence the seed byte at position \<open>i\<close> is \<open>i * 7\<close>.
\<close>

theorem derive_never_fails:
  "deriveKeypairFromPasskey L b = Inr (seed_to_keypair L (derive_seed b))
   \<and> length (derive_seed b) = 32
   \<and> derive_seed [] = map (\<lambda>i. word_of_nat (i * 7)) [0..<32]"
proof -
  have "derive_seed [] = map (\<lambda>i. word_of_nat (i * 7)) [0..<32]"
    unfolding derive_seed_eq by (rule map_cong) (simp_all only: seed_byte_empty)
  then show ?thesis by (simp only: deriveKeypair_eq length_derive_seed)
qed

text \<open>
  Claim C7, as stated, fails: in an input of 33 bytes, flipping bit 0 of the last byte
  (position 32) gives a different input with the same seed.
\<close>

theorem bit_flip_counterexample:
  "replicate 33 (0::u8) \<noteq> []
   \<and> flip_bit_at (replicate 33 0) 32 0 = replicate 32 0 @ [1]
   \<and> flip_bit_at (replicate 33 0) 32 0 \<noteq> replicate 33 0
   \<and> derive_seed (flip_bit_at (replicate 33 0) 32 0) = derive_seed (replicate 33 0)"
  by code_simp

text \<open>A byte at position 32 or beyond is never read, whatever is stored there.\<close>

lemma derive_seed_update_beyond:
  assumes "32 \<le> m"
  shows "derive_seed (c[m := x]) = derive_seed c"
proof (cases "c = []")
  case True
  then show ?thesis by simp
next
  case False
  then have ne: "c \<noteq> []" "c[m := x] \<noteq> []" by simp_all
  have "map (seed_byte (c[m := x])) [0..<32] = map (seed_byte c) [0..<32]"
  proof (rule map_cong [OF refl])
    fix i assume "i \<in> set [0..<32]"
    then have i: "i < 32" by simp
    have "i mod length c \<le> i" by simp
    with i assms have "m \<noteq> i mod length c" by linarith
    then have "c[m := x] ! (i mod length c) = c ! (i mod length c)" by simp
    then show "seed_byte (c[m := x]) i = seed_byte c i"
      by (simp only: seed_byte_nonempty [OF ne(1)] seed_byte_nonempty [OF ne(2)] length_list_update)
  qed
  then show ?thesis by (simp only: derive_seed_eq)
qed

text \<open>
  Claim C7, amended. Flipping a single bit in one of the first 32 bytes of the input
  (bit \<open>k\<close> of the byte at position \<open>j\<close>, \<open>j < len(b)\<close> and \<open>j < 32\<close>) changes the seed at
  position \<open>j\<close>, hence in at least one byte position; flipping a bit of a byte at
  position 32 or beyond leaves the whole seed as it was.
\<close>

theorem bit_flip_changes_seed:
  "(j < length b \<and> j < 32 \<and> k < 8 \<longrightarrow>
        derive_seed (flip_bit_at b j k) ! j \<noteq> derive_seed b ! j
      \<and> derive_seed (flip_bit_at b j k) \<noteq> derive_seed b)
   \<and> (32 \<le> m \<longrightarrow> derive_seed (flip_bit_at c m n) = derive_seed c)"
proof (intro conjI impI)
  assume a: "j < length b \<and> j < 32 \<and> k < 8"
  then have jl: "j < length b" and j32: "j < 32" and k8: "k < 8" by simp_all
  from jl have ne: "b \<noteq> []" "flip_bit_at b j k \<noteq> []"
    by (auto simp: flip_bit_at_def)
  from jl have idx: "j mod length b = j" by simp
  have "derive_seed (flip_bit_at b j k) ! j = (b ! j XOR push_bit k 1) XOR word_of_nat (j * 7)"
    using jl
    by (simp only: derive_seed_nth [OF j32] seed_byte_nonempty [OF ne(2)]
        flip_bit_at_length idx) (simp add: flip_bit_at_def)
  moreover have "derive_seed b ! j = b ! j XOR word_of_nat (j * 7)"
    by (simp only: derive_seed_nth [OF j32] seed_byte_nonempty [OF ne(1)] idx)
  ultimately show neq: "derive_seed (flip_bit_at b j k) ! j \<noteq> derive_seed b ! j"
    using flip_changes_byte [OF k8, of "b ! j" "word_of_nat (j * 7)"]
    by (simp only: simp_thms)
  then show "derive_seed (flip_bit_at b j k) \<noteq> derive_seed b" by auto
next
  assume "32 \<le> m"
  then show "derive_seed (flip_bit_at c m n) = derive_seed c"
    unfolding flip_bit_at_def by (rule derive_seed_update_beyond)
qed

theorem bit_flip_changes_seed_witness:
  "((2::nat) < length [1, 2, 3 :: u8] \<and> (2::nat) < 32 \<and> (7::nat) < 8)
   \<and> flip_bit_at [1, 2, 3] 2 7 = [1, 2, 131]
   \<and> derive_seed [1, 2, 131] ! 2 \<noteq> derive_seed [1, 2, 3] ! 2
   \<and> derive_seed [1, 2, 131] \<noteq> derive_seed [1, 2, 3]
   \<and> (32::nat) \<le> 40
   \<and> flip_bit_at (replicate 41 0) 40 3 = replicate 40 0 @ [8]
   \<and> derive_seed (replicate 40 0 @ [8]) = derive_seed (replicate 41 0)"
proof -
  have f: "flip_bit_at [1, 2, 3] 2 7 = [1, 2, 131]" by code_simp
  have g: "flip_bit_at (replicate 41 0) 40 3 = replicate 40 0 @ [8]" by code_simp
  from bit_flip_changes_seed
    [where j = 2 and b = "[1, 2, 3]" and k = 7 and m = 40 and c = "replicate 41 0" and n = 3]
  show ?thesis
    unfolding f g by simp
qed

text \<open>
  Claim C9. Bytes beyond position 31 never influence the derivation: two inputs of at
  least 32 bytes that agree on their first 32 bytes give the same seed, the same keypair
  and the same wallet (address included).
\<close>

theorem bytes_beyond_31_ignored:
  assumes "32 \<le> length b1" and "32 \<le> length b2" and "take 32 b1 = take 32 b2"
  shows "derive_seed b1 = derive_seed b2
       \<and> deriveKeypairFromPasskey L b1 = deriveKeypairFromPasskey L b2
       \<and> createWalletFromPasskey L b1 = createWalletFromPasskey L b2"
proof -
  have sb: "seed_byte b i = take 32 b ! i XOR word_of_nat (i * 7)"
    if "32 \<le> length b" "i < 32" for b i
  proof -
    from that have ne: "b \<noteq> []" by auto
    from that have "i mod length b = i" by simp
    with that(2) show ?thesis by (simp only: seed_byte_nonempty [OF ne] nth_take)
  qed
  have "map (seed_byte b1) [0..<32] = map (seed_byte b2) [0..<32]"
  proof (rule map_cong [OF refl])
    fix i assume "i \<in> set [0..<32]"
    then have i: "i < 32" by simp
    show "seed_byte b1 i = seed_byte b2 i"
      by (simp only: sb [OF assms(1) i] sb [OF assms(2) i] assms(3))
  qed
  then have "derive_seed b1 = derive_seed b2" by (simp only: derive_seed_eq)
  then show ?thesis by (simp only: createWallet_eq deriveKeypair_eq simp_thms)
qed

theorem bytes_beyond_31_ignored_witness:
  "32 \<le> length (replicate 32 (7::u8) @ [1]) \<and> 32 \<le> length (replicate 32 (7::u8) @ [2, 3])
   \<and> take 32 (replicate 32 (7::u8) @ [1]) = take 32 (replicate 32 7 @ [2, 3])
   \<and> derive_seed (replicate 32 7 @ [1]) = derive_seed (replicate 32 7 @ [2, 3])
   \<and> deriveKeypairFromPasskey example_lib (replicate 32 7 @ [1])
       = deriveKeypairFromPasskey example_lib (replicate 32 7 @ [2, 3])
   \<and> createWalletFromPasskey example_lib (replicate 32 7 @ [1])
       = createWalletFromPasskey example_lib (replicate 32 7 @ [2, 3])"
  using bytes_beyond_31_ignored [of "replicate 32 7 @ [1]" "replicate 32 7 @ [2, 3]" example_lib]
  by simp

section \<open>Properties of the base64url codec\<close>

lemma distinct_alphabet: "distinct base64_alphabet"
  by (simp add: base64_alphabet_def)

lemma length_alphabet: "length base64_alphabet = 64"
  by (simp add: base64_alphabet_def)

lemma index_of_nth: "distinct xs \<Longrightarrow> i < length xs \<Longrightarrow> index_of xs (xs ! i) = Some i"
proof (induction xs arbitrary: i)
  case Nil
  then show ?case by simp
next
  case (Cons x xs)
  show ?case
  proof (cases i)
    case 0
    then show ?thesis by simp
  next
    case (Suc j)
    with Cons.prems have "xs ! j \<in> set xs" "x \<notin> set xs" by auto
    then have "x \<noteq> xs ! j" by auto
    with Cons Suc show ?thesis by simp
  qed
qed

lemma sextets_of_map:
  "\<forall>v \<in> set vs. v < 64 \<Longrightarrow> sextets_of (map (\<lambda>v. base64_alphabet ! v) vs) = Some vs"
  by (induction vs) (simp_all add: index_of_nth distinct_alphabet length_alphabet)

lemma sextet_bounds:
  "(a::nat) < 256 \<Longrightarrow> a div 4 < 64"
  "(b::nat) < 256 \<Longrightarrow> (a mod 4) * 16 + b div 16 < 64"
  "(c::nat) < 256 \<Longrightarrow> (b mod 16) * 4 + c div 64 < 64"
  "(b mod 16) * 4 < (64::nat)"
  "(a mod 4) * 16 < (64::nat)"
proof -
  have m4: "a mod 4 < 4" and m16: "b mod 16 < 16" by simp_all
  show "a < 256 \<Longrightarrow> a div 4 < 64" by simp
  show "b < 256 \<Longrightarrow> (a mod 4) * 16 + b div 16 < 64"
  proof -
    assume "b < 256"
    then have "b div 16 < 16" by simp
    with m4 show ?thesis by linarith
  qed
  show "c < 256 \<Longrightarrow> (b mod 16) * 4 + c div 64 < 64"
  proof -
    assume "c < 256"
    then have "c div 64 < 4" by simp
    with m16 show ?thesis by linarith
  qed
  from m16 show "(b mod 16) * 4 < 64" by linarith
  from m4 show "(a mod 4) * 16 < 64" by linarith
qed

lemma sextets_bound: "\<forall>x \<in> set xs. x < 256 \<Longrightarrow> \<forall>v \<in> set (sextets xs). v < 64"
  by (induction xs rule: sextets.induct) (simp_all add: sextet_bounds)

lemma group3: 
  assumes "a < 256" "b < 256" "c < 256"
  shows "a div 4 * 4 + ((a mod 4) * 16 + b div 16) div 16 = (a::nat)"
    and "(((a mod 4) * 16 + b div 16) mod 16) * 16 + ((b mod 16) * 4 + c div 64) div 4 = (b::nat)"
    and "(((b mod 16) * 4 + c div 64) mod 4) * 64 + c mod 64 = (c::nat)"
  using assms by auto

lemma octets_sextets: "\<forall>x \<in> set xs. x < 256 \<Longrightarrow> octets (sextets xs) = xs"
proof (induction xs rule: sextets.induct)
  case (1 a b c rest)
  then have "a < 256" "b < 256" "c < 256" by auto
  from group3 [OF this] 1 show ?case by simp
next
  case (2 a b)
  then have "a < 256" "b < 256" by auto
  from group3(1,2) [OF this, of 0] show ?case by simp
next
  case (3 a)
  then have "a < 256" by auto
  from group3(1) [OF this, of 0 0] show ?case by simp
next
  case 4
  then show ?case by simp
qed

lemma length_sextets:
  "length (sextets xs) + (3 - length xs mod 3) mod 3 = 4 * ((length xs + 2) div 3)"
proof (induction xs rule: sextets.induct)
  case (1 a b c rest)
  have "(5 + length rest) div 3 = Suc ((Suc (Suc (length rest))) div 3)" by simp
  with 1 show ?case by simp
qed simp_all

lemma replace_all_Cons:
  "replace_all c r (x # xs) = (if x = c then r else [x]) @ replace_all c r xs"
  by (simp add: replace_all_def)

lemma replace_all_Nil: "replace_all c r [] = []"
  by (simp add: replace_all_def)

lemma replace_all_append:
  "replace_all c r (xs @ ys) = replace_all c r xs @ replace_all c r ys"
  by (simp add: replace_all_def)

lemma replace_all_absent: "c \<notin> set xs \<Longrightarrow> replace_all c r xs = xs"
  by (induction xs) (auto simp: replace_all_Cons replace_all_Nil)

lemma replace_all_padding: "replace_all (CHR ''='') [] (replicate k (CHR ''='')) = []"
  by (induction k) (simp_all add: replace_all_Cons replace_all_Nil)

lemma alphabet_excludes:
  assumes "c \<in> set base64_alphabet"
  shows "c \<noteq> CHR ''=''" "c \<noteq> CHR ''-''" "c \<noteq> CHR ''_''" "\<not> ascii_whitespace c"
  using assms by (auto simp: base64_alphabet_def ascii_whitespace_def)

lemma url_roundtrip:
  "\<forall>c \<in> set body. c \<in> set base64_alphabet \<Longrightarrow>
   replace_all (CHR ''_'') ''/'' (replace_all (CHR ''-'') ''+''
     (replace_all (CHR ''='') [] (replace_all (CHR ''/'') ''_''
        (replace_all (CHR ''+'') ''-'' (body @ replicate k (CHR ''='')))))) = body"
proof (induction body)
  case Nil
  have "replace_all (CHR ''/'') ''_'' (replace_all (CHR ''+'') ''-'' (replicate k (CHR ''=''))) = replicate k (CHR ''='')"
    by (simp add: replace_all_absent)
  then show ?case by (simp add: replace_all_padding replace_all_Nil)
next
  case (Cons x body)
  then have x: "x \<noteq> CHR ''=''" "x \<noteq> CHR ''-''" "x \<noteq> CHR ''_''"
    by (simp_all add: alphabet_excludes)
  from Cons have IH: "replace_all (CHR ''_'') ''/'' (replace_all (CHR ''-'') ''+''
     (replace_all (CHR ''='') [] (replace_all (CHR ''/'') ''_''
        (replace_all (CHR ''+'') ''-'' (body @ replicate k (CHR ''='')))))) = body" by simp
  show ?case
    using x IH by (simp add: replace_all_Cons replace_all_append replace_all_Nil)
qed

lemma pad_small:
  assumes "r < (4::nat)" "k \<le> (2::nat)" "(r + k) mod 4 = 0"
  shows "(4 - r) mod 4 = k \<and> r \<noteq> 1"
proof -
  from assms(1) have r: "r = 0 \<or> r = 1 \<or> r = 2 \<or> r = 3" by linarith
  from assms(2) have k: "k = 0 \<or> k = 1 \<or> k = 2" by linarith
  from r k assms(3) show ?thesis by (elim disjE) simp_all
qed

lemma pad_amount:
  assumes "(n + k) mod 4 = 0" "k \<le> 2"
  shows "(4 - n mod 4) mod 4 = (k::nat)" and "n mod 4 \<noteq> 1"
proof -
  have "(n mod 4 + k) mod 4 = 0" using assms(1) by (simp add: mod_add_left_eq)
  from pad_small [OF _ assms(2) this] show "(4 - n mod 4) mod 4 = k" and "n mod 4 \<noteq> 1" by simp_all
qed

lemma strip_padding_btoa:
  assumes "(length body + k) mod 4 = 0" "k \<le> 2" "CHR ''='' \<notin> set body"
  shows "strip_padding (body @ replicate k (CHR ''='')) = body"
proof -
  consider "k = 0" | "k = 1" | "k = 2" using assms(2) by linarith
  then show ?thesis
  proof cases
    case 1
    show ?thesis
    proof (cases "body = []")
      case True
      with 1 show ?thesis by (simp add: strip_padding_def)
    next
      case False
      then have "last body \<in> set body" by simp
      with assms(3) have "last body \<noteq> CHR ''=''" by auto
      with 1 False show ?thesis by (simp add: strip_padding_def)
    qed
  next
    case 2
    with assms(1) have ne: "body \<noteq> []" by auto
    then have "last body \<in> set body" by simp
    with assms(3) have "last body \<noteq> CHR ''=''" by auto
    with 2 ne assms(1) show ?thesis by (simp add: strip_padding_def butlast_append)
  next
    case 3
    have rep: "replicate k (CHR ''='') = ''==''" using 3 by (simp add: numeral_2_eq_2)
    show ?thesis using assms(1) 3 unfolding rep
      by (simp add: strip_padding_def butlast_append)
  qed
qed


lemma of_char_lt_256: "of_char c < (256::nat)"
proof -
  have "of_char c mod 256 = (of_char c :: nat)" by (rule of_char_mod_256)
  moreover have "of_char c mod 256 < (256::nat)" by simp
  ultimately show ?thesis by simp
qed

lemma btoa_sextets_bound: "\<forall>v \<in> set (sextets (map of_char s)). v < 64"
  by (rule sextets_bound) (simp add: of_char_lt_256)

lemma btoa_body_alphabet:
  "\<forall>c \<in> set (map (\<lambda>v. base64_alphabet ! v) (sextets (map of_char s))). c \<in> set base64_alphabet"
  using btoa_sextets_bound [of s] by (auto simp: length_alphabet)

lemma btoa_length:
  "(length (map (\<lambda>v. base64_alphabet ! v) (sextets (map of_char s))) + (3 - length s mod 3) mod 3) mod 4 = 0"
  using length_sextets [of "map of_char s"] by simp

lemma atob_btoa: "atob (btoa s) = Inr s"
proof -
  define body where "body = map (\<lambda>v. base64_alphabet ! v) (sextets (map of_char s))"
  define k where "k = (3 - length s mod 3) mod 3"
  have k: "k \<le> 2" unfolding k_def by simp
  have len: "(length body + k) mod 4 = 0" unfolding body_def k_def by (rule btoa_length)
  have alph: "\<forall>c \<in> set body. c \<in> set base64_alphabet"
    unfolding body_def by (rule btoa_body_alphabet)
  then have noeq: "CHR ''='' \<notin> set body" using alphabet_excludes(1) by blast
  have "\<forall>c \<in> set (body @ replicate k (CHR ''='')). \<not> ascii_whitespace c"
    using alph alphabet_excludes(4) by (auto simp: ascii_whitespace_def)
  then have filt: "filter (\<lambda>c. \<not> ascii_whitespace c) (body @ replicate k (CHR ''='')) = body @ replicate k (CHR ''='')"
    by (simp only: filter_id_conv)
  have strip: "strip_padding (body @ replicate k (CHR ''='')) = body"
    by (rule strip_padding_btoa [OF len k noeq])
  have mod1: "length body mod 4 \<noteq> 1" by (rule pad_amount(2) [OF len k])
  have sx: "sextets_of body = Some (sextets (map of_char s))"
    unfolding body_def by (rule sextets_of_map [OF btoa_sextets_bound])
  have oc: "octets (sextets (map of_char s)) = map of_char s"
    by (rule octets_sextets) (simp add: of_char_lt_256)
  have "btoa s = body @ replicate k (CHR ''='')" by (simp add: btoa_def body_def k_def)
  then show ?thesis
    using filt strip mod1 sx oc by (simp add: atob_def o_def)
qed

lemma fill_bytes_eq:
  "length bytes = length binary \<Longrightarrow> i \<le> length binary \<Longrightarrow>
   fill_bytes binary i bytes = take i bytes @ map (\<lambda>c. word_of_nat (of_char c)) (drop i binary)"
proof (induction binary i bytes rule: fill_bytes.induct)
  case (1 binary i bytes)
  show ?case
  proof (cases "i < length binary")
    case True
    let ?v = "word_of_nat (of_char (binary ! i)) :: u8"
    have "fill_bytes binary i bytes = fill_bytes binary (Suc i) (bytes[i := ?v])"
      using True by (simp add: fill_bytes.simps [of binary i bytes])
    also have "\<dots> = take (Suc i) (bytes[i := ?v]) @ map (\<lambda>c. word_of_nat (of_char c)) (drop (Suc i) binary)"
      using True 1 by simp
    also have "take (Suc i) (bytes[i := ?v]) = take i bytes @ [?v]"
      using True 1(2) by (simp add: take_Suc_conv_app_nth)
    finally show ?thesis using True by (simp add: Cons_nth_drop_Suc [symmetric])
  next
    case False
    then have "fill_bytes binary i bytes = bytes"
      by (simp add: fill_bytes.simps [of binary i bytes])
    with False 1 show ?thesis by simp
  qed
qed

lemma bytes_of_binary: "map (\<lambda>c. word_of_nat (of_char c) :: u8) (binary_string b) = b"
proof -
  have "unat w mod 256 = unat w" for w :: u8
    using unsigned_less [of w, where 'a = nat] by simp
  then show ?thesis by (simp add: binary_string_def o_def map_idI)
qed

text \<open>Decoding undoes the three replacements and \<open>btoa\<close> on any binary string.\<close>

lemma base64url_decode_encoded:
  "base64urlToBuffer
     (replace_all (CHR ''='') []
        (replace_all (CHR ''/'') ''_'' (replace_all (CHR ''+'') ''-'' (btoa (binary_string b)))))
   = Inr b"
proof -
  let ?s = "binary_string b"
  define body where "body = map (\<lambda>v. base64_alphabet ! v) (sextets (map of_char ?s))"
  define k where "k = (3 - length ?s mod 3) mod 3"
  have k: "k \<le> 2" unfolding k_def by simp
  have len: "(length body + k) mod 4 = 0" unfolding body_def k_def by (rule btoa_length)
  have alph: "\<forall>c \<in> set body. c \<in> set base64_alphabet"
    unfolding body_def by (rule btoa_body_alphabet)
  have bt: "btoa ?s = body @ replicate k (CHR ''='')" by (simp add: btoa_def body_def k_def)
  have pad: "padEnd body (length body + (4 - length body mod 4) mod 4) (CHR ''='') = btoa ?s"
    by (simp add: padEnd_def bt pad_amount(1) [OF len k])
  have "base64urlToBuffer
     (replace_all (CHR ''='') []
        (replace_all (CHR ''/'') ''_'' (replace_all (CHR ''+'') ''-'' (btoa ?s)))) =
        (case atob (btoa ?s) of Inl e \<Rightarrow> Inl e
         | Inr binary \<Rightarrow> Inr (fill_bytes binary 0 (replicate (length binary) 0)))"
    unfolding base64urlToBuffer_def Let_def bt
    by (simp only: url_roundtrip [OF alph] pad bt)
  also have "\<dots> = Inr (fill_bytes ?s 0 (replicate (length ?s) 0))"
    by (simp add: atob_btoa)
  also have "fill_bytes ?s 0 (replicate (length ?s) 0) = b"
    by (simp add: fill_bytes_eq bytes_of_binary)
  finally show ?thesis .
qed

text \<open>An encoding that uses both URL-safe characters and drops its padding.\<close>

lemma base64url_example_text:
  "replace_all (CHR ''='') []
     (replace_all (CHR ''/'') ''_''
        (replace_all (CHR ''+'') ''-'' (btoa (binary_string [255, 254, 253, 1]))))
   = ''__79AQ''"
  by code_simp

lemma base64url_example:
  "bufferToBase64url 65536 [255, 254, 253, 1] = Inr ''__79AQ''"
  unfolding bufferToBase64url_def String_fromCharCode_def Let_def
  by (simp add: base64url_example_text)

lemma base64url_decode_example:
  "base64urlToBuffer ''__79AQ'' = Inr [255, 254, 253, 1]
   \<and> base64urlToBuffer ''__79A'' = Inl InvalidCharacterError"
  by code_simp

text \<open>
  Claim C10, as stated, fails: in an engine that accepts at most 65536 arguments in a
  call, encoding a buffer of 130000 bytes throws \<open>RangeError\<close>; there is no encoding to
  decode.
\<close>

theorem base64url_large_buffer_counterexample:
  "bufferToBase64url 65536 (replicate 130000 0) = Inl RangeError"
  by (simp add: bufferToBase64url_def String_fromCharCode_def)

text \<open>
  Claim C10, amended. The base64url codec round-trips on every byte sequence \<open>b\<close> that
  \<open>String.fromCharCode\<close> accepts as its arguments (at most \<open>max_arguments\<close> bytes):
  the encoding succeeds and decoding it returns \<open>b\<close>. On a longer \<open>b\<close> the encoding
  throws \<open>RangeError\<close>.
\<close>

theorem base64url_roundtrip_within_limit:
  "(length b \<le> max_arguments \<longrightarrow>
      (\<exists>s. bufferToBase64url max_arguments b = Inr s \<and> base64urlToBuffer s = Inr b))
   \<and> (max_arguments < length b \<longrightarrow> bufferToBase64url max_arguments b = Inl RangeError)"
proof (intro conjI impI)
  assume "length b \<le> max_arguments"
  then have "bufferToBase64url max_arguments b =
     Inr (replace_all (CHR ''='') []
        (replace_all (CHR ''/'') ''_'' (replace_all (CHR ''+'') ''-'' (btoa (binary_string b)))))"
    by (simp add: bufferToBase64url_def String_fromCharCode_def)
  then show "\<exists>s. bufferToBase64url max_arguments b = Inr s \<and> base64urlToBuffer s = Inr b"
    by (simp add: base64url_decode_encoded)
next
  assume "max_arguments < length b"
  then show "bufferToBase64url max_arguments b = Inl RangeError"
    by (simp add: bufferToBase64url_def String_fromCharCode_def)
qed

theorem base64url_roundtrip_within_limit_witness:
  "length [255, 254, 253, 1 :: u8] \<le> 65536
   \<and> bufferToBase64url 65536 [255, 254, 253, 1] = Inr ''__79AQ''
   \<and> base64urlToBuffer ''__79AQ'' = Inr [255, 254, 253, 1]
   \<and> (65536 :: nat) < length (replicate 130000 (0 :: u8))
   \<and> bufferToBase64url 65536 (replicate 130000 0) = Inl RangeError"
proof -
  have e: "bufferToBase64url 65536 [255, 254, 253, 1] = Inr ''__79AQ''"
    by (rule base64url_example)
  from base64url_roundtrip_within_limit [of "[255, 254, 253, 1]" 65536] e
  have r: "base64urlToBuffer ''__79AQ'' = Inr [255, 254, 253, 1]" by simp
  from base64url_roundtrip_within_limit [of "replicate 130000 0" 65536]
  have l: "bufferToBase64url 65536 (replicate 130000 0) = Inl RangeError" by simp
  from e r l show ?thesis by simp
qed

section \<open>Properties of the sponsored-transaction flow\<close>

lemma createMemoTransaction_ok:
  assumes "decode_address L MEMO_PROGRAM_ADDRESS = Some pid" and "latest_blockhash w = Inr h"
  shows "createMemoTransaction L userWallet memo sponsorKeypair w =
     (Inr \<lparr>instructions =
             [\<lparr>keys = [\<lparr>pubkey = userWallet, isSigner = True, isWritable = False\<rparr>],
               programId = pid, data = utf8_encode L memo\<rparr>],
           feePayer = Some (publicKey sponsorKeypair),
           recentBlockhash = Some h,
           signatures = []\<rparr>, w)"
  using assms
  by (simp add: createMemoTransaction_def PublicKey_new_def getLatestBlockhash_def
      Transaction_new_def Transaction_add_def)

lemma createMemoTransaction_Inr:
  assumes "createMemoTransaction L userWallet memo sponsorKeypair w = (Inr tx, w')"
  shows "\<exists>pid h. decode_address L MEMO_PROGRAM_ADDRESS = Some pid \<and> latest_blockhash w = Inr h
          \<and> w' = w
          \<and> tx = \<lparr>instructions =
             [\<lparr>keys = [\<lparr>pubkey = userWallet, isSigner = True, isWritable = False\<rparr>],
               programId = pid, data = utf8_encode L memo\<rparr>],
           feePayer = Some (publicKey sponsorKeypair),
           recentBlockhash = Some h,
           signatures = []\<rparr>"
  using assms
  by (auto simp: createMemoTransaction_def PublicKey_new_def getLatestBlockhash_def
      Transaction_new_def Transaction_add_def Let_def split: option.splits sum.splits)

lemma createMemoTransaction_ledger_fails:
  assumes "decode_address L MEMO_PROGRAM_ADDRESS = Some pid" and "latest_blockhash w = Inl e"
  shows "createMemoTransaction L userWallet memo sponsorKeypair w = (Inl e, w)"
  using assms
  by (simp add: createMemoTransaction_def PublicKey_new_def getLatestBlockhash_def)

lemma serialize_incomplete:
  "unsigned_slots tx \<noteq> [] \<Longrightarrow> serialize L tx = Inl IncompleteSignatureError"
  by (simp add: serialize_def)

lemma feePayer_required: "feePayer tx = Some sp \<Longrightarrow> sp \<in> set (required_signers tx)"
  by (simp add: required_signers_def)

lemma sponsor_unsigned:
  "feePayer tx = Some sp \<Longrightarrow> map_of (signatures tx) sp = None \<Longrightarrow> unsigned_slots tx \<noteq> []"
  using feePayer_required [of tx sp]
  by (auto simp: unsigned_slots_def filter_empty_conv)

lemma send_submits_only_serialized:
  assumes "sendSponsoredTransaction L tx u s w = (r, w')"
  shows "submitted w' = submitted w
       \<or> (\<exists>t1 t2 bytes. partialSign L tx u = Inr t1 \<and> partialSign L t1 s = Inr t2
            \<and> serialize L t2 = Inr bytes \<and> submitted w' = submitted w @ [bytes])"
  using assms
  by (auto simp: sendSponsoredTransaction_def sendSponsoredTransaction_try_def
      sendRawTransaction_def confirmTransaction_def console_write_def
      split: sum.splits prod.splits)

lemma send_incomplete_fails:
  assumes "partialSign L tx u = Inr t1" and "partialSign L t1 s = Inr t2"
    and "unsigned_slots t2 \<noteq> []"
  shows "sendSponsoredTransaction L tx u s w =
           (Inl (Error (''Transaction failed: '' @ error_message IncompleteSignatureError)),
            console_write ERROR [''Transaction failed:'', error_message IncompleteSignatureError] w)"
  using assms
  by (simp add: sendSponsoredTransaction_def sendSponsoredTransaction_try_def serialize_def)

text \<open>
  Claim C3. Serialising an envelope with an unsigned required signer slot fails with
  \<open>IncompleteSignatureError\<close>; so does, in particular, an envelope whose fee payer (the
  sponsor) has not signed. In \<open>sendSponsoredTransaction\<close> the envelope is serialised
  before \<open>sendRawTransaction\<close> is called: when a slot is still unsigned after the two
  signing steps the call fails and nothing is handed to the node, and whatever is handed
  to the node is the serialisation of an envelope without unsigned slot.
\<close>

theorem incomplete_signature_rejected:
  "(unsigned_slots tx \<noteq> [] \<longrightarrow> serialize L tx = Inl IncompleteSignatureError)
   \<and> (feePayer tx = Some sp \<and> map_of (signatures tx) sp = None \<longrightarrow>
        serialize L tx = Inl IncompleteSignatureError)
   \<and> (partialSign L env u = Inr ta \<and> partialSign L ta s = Inr tb \<and> unsigned_slots tb \<noteq> [] \<longrightarrow>
        fst (sendSponsoredTransaction L env u s w) =
          Inl (Error (''Transaction failed: '' @ error_message IncompleteSignatureError))
        \<and> submitted (snd (sendSponsoredTransaction L env u s w)) = submitted w)
   \<and> (sendSponsoredTransaction L env u s w = (r, w') \<longrightarrow>
        submitted w' = submitted w
        \<or> (\<exists>ta tb bytes. partialSign L env u = Inr ta \<and> partialSign L ta s = Inr tb
              \<and> unsigned_slots tb = [] \<and> serialize L tb = Inr bytes
              \<and> submitted w' = submitted w @ [bytes]))"
proof (intro conjI impI)
  assume "unsigned_slots tx \<noteq> []"
  then show "serialize L tx = Inl IncompleteSignatureError" by (rule serialize_incomplete)
next
  assume "feePayer tx = Some sp \<and> map_of (signatures tx) sp = None"
  then have "unsigned_slots tx \<noteq> []" by (simp add: sponsor_unsigned)
  then show "serialize L tx = Inl IncompleteSignatureError" by (rule serialize_incomplete)
next
  assume a: "partialSign L env u = Inr ta \<and> partialSign L ta s = Inr tb \<and> unsigned_slots tb \<noteq> []"
  then have e: "sendSponsoredTransaction L env u s w =
           (Inl (Error (''Transaction failed: '' @ error_message IncompleteSignatureError)),
            console_write ERROR [''Transaction failed:'', error_message IncompleteSignatureError] w)"
    by (simp add: send_incomplete_fails)
  show "fst (sendSponsoredTransaction L env u s w) =
          Inl (Error (''Transaction failed: '' @ error_message IncompleteSignatureError))"
    by (simp only: e fst_conv)
  show "submitted (snd (sendSponsoredTransaction L env u s w)) = submitted w"
    by (simp only: e snd_conv) (simp add: console_write_def)
next
  assume a: "sendSponsoredTransaction L env u s w = (r, w')"
  from send_submits_only_serialized [OF a]
  show "submitted w' = submitted w
        \<or> (\<exists>ta tb bytes. partialSign L env u = Inr ta \<and> partialSign L ta s = Inr tb
              \<and> unsigned_slots tb = [] \<and> serialize L tb = Inr bytes
              \<and> submitted w' = submitted w @ [bytes])"
    by (auto simp: serialize_def split: if_splits)
qed

text \<open>
  The envelope signed by the subject alone: its fee payer slot is unsigned, serialising
  it fails, and \<open>sendSponsoredTransaction\<close> given the subject's keypair twice fails
  without handing anything to the node.
\<close>

theorem incomplete_signature_rejected_witness:
  "partialSign example_lib example_envelope example_subject =
      Inr (example_envelope\<lparr>signatures := [([85, 85], [85, 104])]\<rparr>)
   \<and> unsigned_slots (example_envelope\<lparr>signatures := [([85, 85], [85, 104])]\<rparr>) = [publicKey example_sponsor]
   \<and> feePayer (example_envelope\<lparr>signatures := [([85, 85], [85, 104])]\<rparr>) = Some [65, 65]
   \<and> map_of (signatures (example_envelope\<lparr>signatures := [([85, 85], [85, 104])]\<rparr>)) [65, 65] = None
   \<and> serialize example_lib (example_envelope\<lparr>signatures := [([85, 85], [85, 104])]\<rparr>)
        = Inl IncompleteSignatureError
   \<and> fst (sendSponsoredTransaction example_lib example_envelope example_subject example_subject
             (example_world None ''bh''))
        = Inl (Error ''Transaction failed: IncompleteSignatureError'')
   \<and> submitted (snd (sendSponsoredTransaction example_lib example_envelope example_subject
                        example_subject (example_world None ''bh''))) = []"
proof -
  let ?t1 = "example_envelope\<lparr>signatures := [([85, 85], [85, 104])]\<rparr>"
  let ?w = "example_world None ''bh''"
  have p1: "partialSign example_lib example_envelope example_subject = Inr ?t1"
    by code_simp
  have p2: "partialSign example_lib ?t1 example_subject = Inr ?t1"
    by code_simp
  have u: "unsigned_slots ?t1 = [publicKey example_sponsor]"
    by code_simp
  have f: "feePayer ?t1 = Some [65, 65]" "map_of (signatures ?t1) [65, 65 :: u8] = None"
    by (simp_all add: example_envelope_def)
  have s0: "submitted ?w = []" by (simp add: example_world_def)
  note inst = incomplete_signature_rejected
    [where tx = "?t1" and L = example_lib and sp = "[65, 65]" and env = example_envelope
       and u = example_subject and s = example_subject and ta = "?t1" and tb = "?t1"
       and w = "?w"
       and r = "fst (sendSponsoredTransaction example_lib example_envelope example_subject
                      example_subject ?w)"
       and w' = "snd (sendSponsoredTransaction example_lib example_envelope example_subject
                       example_subject ?w)"]
  from inst p1 p2 u f s0 show ?thesis by simp
qed

text \<open>
  Claim C5, as stated, fails: with an empty blockhash from the ledger,
  \<open>createMemoTransaction\<close> does not fail; it returns the envelope with the empty
  blockhash recorded.
\<close>

theorem empty_blockhash_counterexample:
  "latest_blockhash (example_world None []) = Inr []
   \<and> fst (createMemoTransaction example_lib [85, 85] ''hi'' example_sponsor (example_world None []))
       = Inr \<lparr>instructions =
                [\<lparr>keys = [\<lparr>pubkey = [85, 85], isSigner = True, isWritable = False\<rparr>],
                  programId = bytes_of_string MEMO_PROGRAM_ADDRESS,
                  data = [104, 105]\<rparr>],
              feePayer = Some [65, 65],
              recentBlockhash = Some [],
              signatures = []\<rparr>"
  by code_simp

text \<open>
  Claim C5, amended. Assembly does not check the blockhash: whatever blockhash the
  ledger returns, empty or not, \<open>createMemoTransaction\<close> succeeds and returns an
  envelope that records it and carries no signature, leaving the world as it was.
  Assembly fails only when the program address cannot be constructed or the ledger
  query fails, and then with that error.
\<close>

theorem blockhash_not_checked:
  "(decode_address L MEMO_PROGRAM_ADDRESS = Some pid \<and> latest_blockhash w = Inr h \<longrightarrow>
      (\<exists>tx. createMemoTransaction L userWallet memo sponsorKeypair w = (Inr tx, w)
            \<and> recentBlockhash tx = Some h \<and> signatures tx = []))
   \<and> (createMemoTransaction L userWallet memo sponsorKeypair w = (Inl e, w') \<longrightarrow>
        w' = w
        \<and> (decode_address L MEMO_PROGRAM_ADDRESS = None \<and> e = LedgerError ''Invalid public key input''
           \<or> latest_blockhash w = Inl e))"
proof (intro conjI impI)
  assume "decode_address L MEMO_PROGRAM_ADDRESS = Some pid \<and> latest_blockhash w = Inr h"
  then show "\<exists>tx. createMemoTransaction L userWallet memo sponsorKeypair w = (Inr tx, w)
            \<and> recentBlockhash tx = Some h \<and> signatures tx = []"
    by (simp add: createMemoTransaction_ok)
next
  assume a: "createMemoTransaction L userWallet memo sponsorKeypair w = (Inl e, w')"
  then show "w' = w"
    by (auto simp: createMemoTransaction_def PublicKey_new_def getLatestBlockhash_def Let_def
        split: option.splits sum.splits)
  from a show "decode_address L MEMO_PROGRAM_ADDRESS = None \<and> e = LedgerError ''Invalid public key input''
           \<or> latest_blockhash w = Inl e"
    by (auto simp: createMemoTransaction_def PublicKey_new_def getLatestBlockhash_def Let_def
        split: option.splits sum.splits)
qed

theorem blockhash_not_checked_witness:
  "decode_address example_lib MEMO_PROGRAM_ADDRESS = Some (bytes_of_string MEMO_PROGRAM_ADDRESS)
   \<and> latest_blockhash (example_world None []) = Inr []
   \<and> (\<exists>tx. createMemoTransaction example_lib [85, 85] ''hi'' example_sponsor (example_world None [])
              = (Inr tx, example_world None [])
            \<and> recentBlockhash tx = Some [] \<and> signatures tx = [])"
proof -
  have d: "decode_address example_lib MEMO_PROGRAM_ADDRESS = Some (bytes_of_string MEMO_PROGRAM_ADDRESS)"
    by (simp add: example_lib_def)
  have l: "latest_blockhash (example_world None []) = Inr []"
    by (simp add: example_world_def)
  from blockhash_not_checked
    [where L = example_lib and pid = "bytes_of_string MEMO_PROGRAM_ADDRESS"
       and w = "example_world None []" and h = "[]" and userWallet = "[85, 85]"
       and memo = "''hi''" and sponsorKeypair = example_sponsor] d l
  show ?thesis by blast
qed

text \<open>
  Claim C6. Whenever the memo-transaction builder builds a transaction, it contains
  exactly one instruction; the instruction's program is the key decoded from the fixed
  memo program address, its only account is the subject identity, a signer without write
  permission, and its data is the encoded payload; the fee payer is the sponsor's public
  key. It builds one whenever the ledger answers with a blockhash.
\<close>

theorem memo_transaction_shape:
  "(createMemoTransaction L userWallet memo sponsorKeypair w = (Inr tx, w') \<longrightarrow>
        (\<exists>ins. instructions tx = [ins]
            \<and> decode_address L MEMO_PROGRAM_ADDRESS = Some (programId ins)
            \<and> keys ins = [\<lparr>pubkey = userWallet, isSigner = True, isWritable = False\<rparr>]
            \<and> data ins = utf8_encode L memo)
        \<and> feePayer tx = Some (publicKey sponsorKeypair))
   \<and> (decode_address L MEMO_PROGRAM_ADDRESS = Some pid \<and> latest_blockhash w = Inr h \<longrightarrow>
        createMemoTransaction L userWallet memo sponsorKeypair w =
          (Inr \<lparr>instructions =
                  [\<lparr>keys = [\<lparr>pubkey = userWallet, isSigner = True, isWritable = False\<rparr>],
                    programId = pid, data = utf8_encode L memo\<rparr>],
                feePayer = Some (publicKey sponsorKeypair),
                recentBlockhash = Some h,
                signatures = []\<rparr>, w))"
proof (intro conjI impI)
  assume a: "createMemoTransaction L userWallet memo sponsorKeypair w = (Inr tx, w')"
  from createMemoTransaction_Inr [OF a]
  show "\<exists>ins. instructions tx = [ins]
            \<and> decode_address L MEMO_PROGRAM_ADDRESS = Some (programId ins)
            \<and> keys ins = [\<lparr>pubkey = userWallet, isSigner = True, isWritable = False\<rparr>]
            \<and> data ins = utf8_encode L memo"
    by auto
  from createMemoTransaction_Inr [OF a]
  show "feePayer tx = Some (publicKey sponsorKeypair)" by auto
next
  assume "decode_address L MEMO_PROGRAM_ADDRESS = Some pid \<and> latest_blockhash w = Inr h"
  then show "createMemoTransaction L userWallet memo sponsorKeypair w =
          (Inr \<lparr>instructions =
                  [\<lparr>keys = [\<lparr>pubkey = userWallet, isSigner = True, isWritable = False\<rparr>],
                    programId = pid, data = utf8_encode L memo\<rparr>],
                feePayer = Some (publicKey sponsorKeypair),
                recentBlockhash = Some h,
                signatures = []\<rparr>, w)"
    by (simp add: createMemoTransaction_ok)
qed

theorem memo_transaction_shape_witness:
  "decode_address example_lib MEMO_PROGRAM_ADDRESS = Some (bytes_of_string MEMO_PROGRAM_ADDRESS)
   \<and> latest_blockhash (example_world None ''bh'') = Inr ''bh''
   \<and> createMemoTransaction example_lib [85, 85] ''hi'' example_sponsor (example_world None ''bh'') =
       (Inr \<lparr>instructions =
               [\<lparr>keys = [\<lparr>pubkey = [85, 85], isSigner = True, isWritable = False\<rparr>],
                 programId = bytes_of_string MEMO_PROGRAM_ADDRESS,
                 data = utf8_encode example_lib ''hi''\<rparr>],
             feePayer = Some (publicKey example_sponsor),
             recentBlockhash = Some ''bh'',
             signatures = []\<rparr>, example_world None ''bh'')"
proof -
  have d: "decode_address example_lib MEMO_PROGRAM_ADDRESS = Some (bytes_of_string MEMO_PROGRAM_ADDRESS)"
    by (simp add: example_lib_def)
  have l: "latest_blockhash (example_world None ''bh'') = Inr ''bh''"
    by (simp add: example_world_def)
  from memo_transaction_shape
    [where L = example_lib and pid = "bytes_of_string MEMO_PROGRAM_ADDRESS"
       and w = "example_world None ''bh''" and h = "''bh''" and userWallet = "[85, 85]"
       and memo = "''hi''" and sponsorKeypair = example_sponsor] d l
  show ?thesis by blast
qed

text \<open>
  With no sponsor secret configured (the variable unset, empty, or the placeholder),
  \<open>getSponsorWallet\<close> generates a random sponsor and writes nothing to the console.
\<close>

lemma getSponsorWallet_silent:
  assumes "env_sponsor_key w = None \<or> env_sponsor_key w = Some []
         \<or> env_sponsor_key w = Some placeholder_key"
  shows "getSponsorWallet L w = Keypair_generate L w"
    and "console (snd (getSponsorWallet L w)) = console w"
  using assms by (auto simp: getSponsorWallet_def Keypair_generate_def)

text \<open>
  Claim C8, evaluated at a world with no sponsor secret. The flow succeeds with a
  generated sponsor (one random draw is consumed); its return value and its console
  output are exactly those of a world whose configured secret decodes to the same
  keypair (no draw consumed), and there is no warning in them: the caller cannot tell
  that the sponsor was ephemeral. The same holds with the placeholder value. The two
  sibling paths do report it: a secret that fails to decode is logged with a warning,
  and \<open>handleGetSponsor\<close> marks a generated sponsor with \<open>isDemo: true\<close>.
\<close>

theorem ephemeral_sponsor_unreported:
  "env_sponsor_key (example_world None ''bh'') = None
   \<and> fst (executeGaslessTransaction example_lib example_wallet ''hi'' (example_world None ''bh''))
        = Inr \<lparr>signature = ''sig'', sponsor = ''AA'', feeSaved = (5, -6)\<rparr>
   \<and> console (snd (executeGaslessTransaction example_lib example_wallet ''hi''
                      (example_world None ''bh'')))
        = [(LOG, [''Creating gasless transaction...'']),
           (LOG, [''Transaction created with sponsor:'', ''AA'']),
           (LOG, [''Fee payer:'', ''AA'']),
           (LOG, [''Transaction sent:'', ''sig''])]
   \<and> drawn (snd (executeGaslessTransaction example_lib example_wallet ''hi''
                    (example_world None ''bh''))) = 1
   \<and> fst (executeGaslessTransaction example_lib example_wallet ''hi''
             (example_world (Some ''AAAA'') ''bh''))
        = fst (executeGaslessTransaction example_lib example_wallet ''hi''
                 (example_world None ''bh''))
   \<and> console (snd (executeGaslessTransaction example_lib example_wallet ''hi''
                      (example_world (Some ''AAAA'') ''bh'')))
        = console (snd (executeGaslessTransaction example_lib example_wallet ''hi''
                          (example_world None ''bh'')))
   \<and> drawn (snd (executeGaslessTransaction example_lib example_wallet ''hi''
                    (example_world (Some ''AAAA'') ''bh''))) = 0
   \<and> console (snd (executeGaslessTransaction example_lib example_wallet ''hi''
                      (example_world (Some placeholder_key) ''bh'')))
        = console (snd (executeGaslessTransaction example_lib example_wallet ''hi''
                          (example_world None ''bh'')))
   \<and> console (snd (executeGaslessTransaction example_lib example_wallet ''hi''
                      (example_world (Some ''zz'') ''bh'')))
        = [(LOG, [''Creating gasless transaction...'']),
           (WARN, [''Invalid sponsor key, using random sponsor'']),
           (LOG, [''Transaction created with sponsor:'', ''AA'']),
           (LOG, [''Fee payer:'', ''AA'']),
           (LOG, [''Transaction sent:'', ''sig''])]
   \<and> fst (handleGetSponsor example_lib (example_world None ''bh''))
        = \<lparr>sr_sponsor = ''AA'', sr_isDemo = Some True\<rparr>"
  by code_simp

end
